theory Spec2Isabelle
  imports Main "HOL-Library.Word" "HOL-Library.AList"
begin

unbundle bit_operations_syntax

section \<open>Deployment script for Flyte projects (deploy.py)\<close>

text \<open>
  A shallow embedding of \<^verbatim>\<open>projects/destinations_similarity/deploy.py\<close>.
  Python strings are modelled as \<open>string\<close> (lists of 8-bit characters, read as ASCII
  code points). Everything the script does to the outside world (printing, running a
  subprocess, talking to the Docker daemon, reading the git repository, deleting a file)
  is recorded as an \<open>event\<close> in a trace, in the order in which it happens.
\<close>

subsection \<open>Module constants (lines 13-16)\<close>

text \<open>\<^verbatim>\<open>str.lower()\<close> on ASCII text: the letters A-Z are mapped to a-z.\<close>

definition lower_char :: "char \<Rightarrow> char" where
  "lower_char c =
     (if 65 \<le> (of_char c :: nat) \<and> (of_char c :: nat) \<le> 90
      then char_of ((of_char c :: nat) + 32) else c)"

definition lower :: "string \<Rightarrow> string" where
  "lower s = map lower_char s"

definition IMAGE_NAME :: string where
  "IMAGE_NAME = ''flytelab''"

definition REGISTRY :: string where
  "REGISTRY = lower ''ghcr.io/patrickfbraz''"

definition PROJECT_NAME :: string where
  "PROJECT_NAME = ''vamos-dalhe''"

definition DESCRIPTION :: string where
  "DESCRIPTION = ''Hurb project to the Flyte Hackathon''"

subsection \<open>get_tag (lines 70-75)\<close>

text \<open>
  The optional argument \<^verbatim>\<open>registry=None\<close> is an \<open>option\<close>. The function reads
  only its arguments and the module constants, so it is a plain HOL function.
\<close>

definition get_tag :: "string \<Rightarrow> string option \<Rightarrow> string" where
  "get_tag version registry =
     (case registry of None \<Rightarrow> REGISTRY | Some r \<Rightarrow> r) @ ''/'' @ IMAGE_NAME @ '':''
       @ PROJECT_NAME @ ''-'' @ version"

subsection \<open>The outside world\<close>

text \<open>
  Every action on the outside world is an event. \<open>Echo m err\<close> is
  \<^verbatim>\<open>typer.echo(m, err=err)\<close>; \<open>Subprocess args env\<close> is
  \<^verbatim>\<open>subprocess.run(args, env=env)\<close> (\<open>None\<close>: the environment is inherited);
  \<open>GitRepo\<close>, \<open>GitIsDirty\<close> and \<open>GitRevParse\<close> are the three uses of GitPython;
  \<open>Remove p\<close> is \<^verbatim>\<open>os.remove(p)\<close>; \<open>DockerBuild path dockerfile tag buildargs\<close>
  is \<^verbatim>\<open>client.images.build\<close> and \<open>DockerPush t\<close> is \<^verbatim>\<open>docker_client.api.push(t)\<close>.
\<close>

datatype event =
    Echo string bool
  | Subprocess "string list" "(string \<times> string) list option"
  | GitRepo string
  | GitIsDirty
  | GitRevParse string
  | Remove string
  | DockerBuild string string string "(string \<times> string) list"
  | DockerPush string

text \<open>
  Exceptions are values. \<open>Exit c\<close> is \<^verbatim>\<open>typer.Exit(code=c)\<close>;
  \<open>CalledProcessError\<close> is what \<^verbatim>\<open>check=True\<close> raises on a non-zero return code;
  \<open>OSError\<close> stands for a program that cannot be started or a file that cannot be
  removed; \<open>BuildError\<close> and \<open>APIError\<close> come from the Docker client; \<open>IndexError\<close>
  from \<^verbatim>\<open>image.tags[0]\<close>. \<open>InvalidGitRepositoryError\<close> is what
  \<^verbatim>\<open>git.Repo\<close> raises when the directory is in no repository, and \<open>BadName\<close> what
  \<^verbatim>\<open>rev_parse\<close> raises when the name does not resolve to a commit.
\<close>

datatype error =
    Exit int
  | CalledProcessError int "string list"
  | OSError
  | BuildError
  | APIError
  | IndexError
  | InvalidGitRepositoryError
  | BadName

record image =
  tags :: "string list"

record commit =
  hexsha :: string

text \<open>
  A repository has a working tree that is dirty or not, and a HEAD that resolves to a
  commit or, before the first commit, to none.
\<close>

record repo =
  is_dirty :: bool
  head_commit :: "commit option"

datatype proc_result = CannotStart | Completed int string

datatype build_result = BuildFailed | Built image "string list"

text \<open>A push streams its progress lines and then either ends (\<open>True\<close>) or raises.\<close>

datatype push_result = PushStream (push_lines: "string list") (push_ok: bool)

type_synonym filesystem = "string \<Rightarrow> string option"

text \<open>
  The \<open>host\<close> is everything the script does not control: the process environment, the
  git repository it runs in (\<open>None\<close>: the working directory is in no repository), the
  bytes \<^verbatim>\<open>os.urandom(16)\<close> returns at its n-th call
  (as a 128-bit integer), and how the external programs and the Docker daemon answer.
  An answer may depend on everything that has happened so far (the trace before the
  call) and, for a subprocess, on the files it finds; a subprocess also leaves a file
  system behind.
\<close>

record host =
  environ :: "(string \<times> string) list"
  git_repo :: "repo option"
  urandom :: "nat \<Rightarrow> 128 word"
  run_process :: "event list \<Rightarrow> filesystem \<Rightarrow> string list
                    \<Rightarrow> (string \<times> string) list option \<Rightarrow> proc_result \<times> filesystem"
  images_build :: "event list \<Rightarrow> string \<Rightarrow> string \<Rightarrow> string
                    \<Rightarrow> (string \<times> string) list \<Rightarrow> build_result"
  api_push :: "event list \<Rightarrow> string \<Rightarrow> push_result"

text \<open>
  The \<open>world\<close> is what a run changes: the trace of events, the files in the working
  directory (path to content) and the number of random draws made.
\<close>

record world =
  trace :: "event list"
  files :: filesystem
  drawn :: nat

type_synonym 'a io = "world \<Rightarrow> (error + 'a) \<times> world"

definition return_io :: "'a \<Rightarrow> 'a io" where
  "return_io x w = (Inr x, w)"

definition raise_io :: "error \<Rightarrow> 'a io" where
  "raise_io e w = (Inl e, w)"

text \<open>Sequencing: an exception in the first statement skips the rest.\<close>

definition bind_io :: "'a io \<Rightarrow> ('a \<Rightarrow> 'b io) \<Rightarrow> 'b io" where
  "bind_io m f w = (case m w of (Inl e, w') \<Rightarrow> (Inl e, w') | (Inr x, w') \<Rightarrow> f x w')"

definition emit :: "event \<Rightarrow> unit io" where
  "emit ev w = (Inr (), w\<lparr>trace := trace w @ [ev]\<rparr>)"

definition echo :: "string \<Rightarrow> bool \<Rightarrow> unit io" where
  "echo message err = emit (Echo message err)"

text \<open>\<^verbatim>\<open>for line in lines: typer.echo(line)\<close>\<close>

fun echo_all :: "string list \<Rightarrow> world \<Rightarrow> (error + unit) \<times> world" where
  "echo_all [] w = (Inr (), w)"
| "echo_all (line # lines) w =
     (case echo line False w of
        (Inl e, w') \<Rightarrow> (Inl e, w')
      | (Inr _, w') \<Rightarrow> echo_all lines w')"

text \<open>
  \<^verbatim>\<open>subprocess.run(args, check=True, env=env)\<close>: the call is recorded, the program
  runs on the current files, and a non-zero return code raises. The value returned is
  the captured standard output.
\<close>

definition subprocess_run ::
  "host \<Rightarrow> string list \<Rightarrow> (string \<times> string) list option \<Rightarrow> string io" where
  "subprocess_run h args penv w =
     (let (r, fs') = run_process h (trace w) (files w) args penv;
          w' = w\<lparr>trace := trace w @ [Subprocess args penv], files := fs'\<rparr>
      in case r of
           CannotStart \<Rightarrow> (Inl OSError, w')
         | Completed returncode out \<Rightarrow>
             if returncode \<noteq> 0 then (Inl (CalledProcessError returncode args), w')
             else (Inr out, w'))"

text \<open>\<^verbatim>\<open>Path.exists()\<close> and \<^verbatim>\<open>os.remove\<close>.\<close>

definition path_exists :: "string \<Rightarrow> bool io" where
  "path_exists p w = (Inr (files w p \<noteq> None), w)"

definition os_remove :: "string \<Rightarrow> unit io" where
  "os_remove p w =
     (if files w p = None then (Inl OSError, w)
      else (Inr (), w\<lparr>trace := trace w @ [Remove p], files := (files w)(p := None)\<rparr>))"

text \<open>
  \<^verbatim>\<open>str.strip()\<close>: leading and trailing whitespace is removed. On ASCII the
  whitespace characters are 9-13 and 28-32.
\<close>

definition is_space :: "char \<Rightarrow> bool" where
  "is_space c = (let n = (of_char c :: nat) in (9 \<le> n \<and> n \<le> 13) \<or> (28 \<le> n \<and> n \<le> 32))"

definition strip :: "string \<Rightarrow> string" where
  "strip s = rev (dropWhile is_space (rev (dropWhile is_space s)))"

text \<open>
  A dict display \<^verbatim>\<open>{k: v, **d}\<close>: the entries of \<open>d\<close> are written over the first
  ones, in order.
\<close>

definition dict_unpack :: "(string \<times> string) list \<Rightarrow> (string \<times> string) list \<Rightarrow> (string \<times> string) list" where
  "dict_unpack first d = fold (\<lambda>(k, v) acc. AList.update k v acc) d first"

subsection \<open>create_project (lines 24-50)\<close>

text \<open>
  \<^verbatim>\<open>Path(".flyte") / f"{config_type}-config.yaml"\<close>, written as the path string.
\<close>

definition create_project_config :: "bool \<Rightarrow> string" where
  "create_project_config remote =
     (let config_type = (if remote then ''remote'' else ''sandbox'')
      in ''.flyte/'' @ config_type @ ''-config.yaml'')"

definition create_project :: "host \<Rightarrow> bool \<Rightarrow> unit io" where
  "create_project h remote =
     (let config = create_project_config remote in
      bind_io (subprocess_run h
                 [''flytectl'', ''get'', ''project'', PROJECT_NAME, ''--config'', config] None)
        (\<lambda>output.
           if strip output = [] then
             bind_io (echo (''Creating project '' @ PROJECT_NAME @ ''...'') False)
               (\<lambda>_. bind_io (subprocess_run h
                                [''flytectl'', ''create'', ''project'',
                                 ''--project'', PROJECT_NAME,
                                 ''--name'', PROJECT_NAME,
                                 ''--id'', PROJECT_NAME,
                                 ''--description'', DESCRIPTION,
                                 ''--config'', config] None)
                       (\<lambda>_. return_io ()))
           else return_io ()))"

subsection \<open>get_version (lines 53-67)\<close>

definition dirty_message :: string where
  "dirty_message =
     ''Please commit git changes before building. If you haven't updated''
     @ '' any system/python dependencies but want to deploy task/workflow ''
     @ ''code changes, use the --fast flag to do fast registration.''"

text \<open>
  \<^verbatim>\<open>git.Repo(".", search_parent_directories=True)\<close> raises when there is no
  repository, and \<^verbatim>\<open>repo.rev_parse("HEAD")\<close> raises when HEAD has no commit.
\<close>

definition git_Repo :: "host \<Rightarrow> string \<Rightarrow> repo io" where
  "git_Repo h path w =
     (let w' = w\<lparr>trace := trace w @ [GitRepo path]\<rparr>
      in case git_repo h of
           None \<Rightarrow> (Inl InvalidGitRepositoryError, w')
         | Some r \<Rightarrow> (Inr r, w'))"

definition rev_parse :: "repo \<Rightarrow> string \<Rightarrow> commit io" where
  "rev_parse r name w =
     (let w' = w\<lparr>trace := trace w @ [GitRevParse name]\<rparr>
      in case head_commit r of
           None \<Rightarrow> (Inl BadName, w')
         | Some c \<Rightarrow> (Inr c, w'))"

text \<open>
  \<^verbatim>\<open>not fast and repo.is_dirty()\<close> does not ask the repository when \<open>fast\<close> is set.
\<close>

definition get_version :: "host \<Rightarrow> bool \<Rightarrow> string io" where
  "get_version h fast =
     bind_io (git_Repo h ''.'')
       (\<lambda>repo. bind_io (if \<not> fast
                      then bind_io (emit GitIsDirty) (\<lambda>_. return_io (is_dirty repo))
                      else return_io False)
         (\<lambda>dirty.
            if dirty then
              bind_io (echo dirty_message True) (\<lambda>_. raise_io (Exit 1))
            else
              bind_io (rev_parse repo ''HEAD'')
                (\<lambda>commit. return_io (hexsha commit))))"

subsection \<open>sandbox_docker_build, docker_build, docker_push (lines 78-113)\<close>

definition sandbox_docker_build :: "host \<Rightarrow> string \<Rightarrow> unit io" where
  "sandbox_docker_build h tag =
     bind_io (echo ''Building image in Flyte sandbox...'' False)
       (\<lambda>_. bind_io (subprocess_run h
                        [''flytectl'', ''sandbox'', ''exec'', ''--'',
                         ''docker'', ''build'', ''.'', ''--tag'', tag] None)
               (\<lambda>_. return_io ()))"

text \<open>
  \<^verbatim>\<open>docker.from_env()\<close> only builds a client object and leaves no event. Log and
  progress lines are strings. \<^verbatim>\<open>image.tags[0]\<close> is read before the push is started.
\<close>

definition docker_build_config :: "bool \<Rightarrow> string" where
  "docker_build_config remote =
     ''.flyte/'' @ (if remote then ''remote'' else ''sandbox'') @ ''.config''"

definition client_images_build ::
  "host \<Rightarrow> string \<Rightarrow> string \<Rightarrow> string \<Rightarrow> (string \<times> string) list \<Rightarrow> (image \<times> string list) io" where
  "client_images_build h path dockerfile tag buildargs w =
     (let w' = w\<lparr>trace := trace w @ [DockerBuild path dockerfile tag buildargs]\<rparr>
      in case images_build h (trace w) path dockerfile tag buildargs of
           BuildFailed \<Rightarrow> (Inl BuildError, w')
         | Built img build_logs \<Rightarrow> (Inr (img, build_logs), w'))"

definition docker_build :: "host \<Rightarrow> string \<Rightarrow> bool \<Rightarrow> image io" where
  "docker_build h tag remote =
     (let config = docker_build_config remote in
      bind_io (echo (''Building image: '' @ tag @ ''...'') False)
        (\<lambda>_. bind_io (client_images_build h ''.'' ''Dockerfile'' tag
                         [(''image'', tag), (''config'', config)])
          (\<lambda>(img, build_logs).
             bind_io (echo_all build_logs) (\<lambda>_. return_io img))))"

definition client_api_push :: "host \<Rightarrow> string \<Rightarrow> (string list \<times> bool) io" where
  "client_api_push h t w =
     (case api_push h (trace w) t of
        PushStream lines ok \<Rightarrow> (Inr (lines, ok), w\<lparr>trace := trace w @ [DockerPush t]\<rparr>))"

definition docker_push :: "host \<Rightarrow> image \<Rightarrow> unit io" where
  "docker_push h img =
     bind_io (case tags img of [] \<Rightarrow> raise_io IndexError | t # _ \<Rightarrow> return_io t)
       (\<lambda>t. bind_io (client_api_push h t)
         (\<lambda>(lines, ok).
            bind_io (echo_all lines)
              (\<lambda>_. if ok then return_io () else raise_io APIError)))"

subsection \<open>serialize (lines 116-138)\<close>

definition serialize_config :: "bool \<Rightarrow> string" where
  "serialize_config remote =
     ''.flyte/'' @ (if remote then ''remote'' else ''sandbox'') @ ''.config''"

definition package_path :: string where
  "package_path = ''flyte-package.tgz''"

definition serialize_args :: "string \<Rightarrow> bool \<Rightarrow> bool \<Rightarrow> string list" where
  "serialize_args tag remote fast =
     [''pyflyte'', ''-c'', serialize_config remote,
      ''--pkgs'', ''destinations_similarity'',
      ''package'', ''--force'', ''--image'', tag]
     @ (if fast then [''--fast''] else [''--in-container-source-path'', ''/home/flyte''])"

definition serialize_env :: "host \<Rightarrow> bool \<Rightarrow> (string \<times> string) list" where
  "serialize_env h remote =
     dict_unpack [(''FLYTE_SANDBOX'', if \<not> remote then ''1'' else ''0'')] (environ h)"

definition serialize :: "host \<Rightarrow> string \<Rightarrow> bool \<Rightarrow> bool \<Rightarrow> unit io" where
  "serialize h tag remote fast =
     bind_io (echo ''Serializing Flyte workflows...'' False)
       (\<lambda>_. bind_io (path_exists package_path)
         (\<lambda>ex. bind_io (if ex then os_remove package_path else return_io ())
           (\<lambda>_. bind_io (subprocess_run h (serialize_args tag remote fast)
                            (Some (serialize_env h remote)))
             (\<lambda>_. return_io ()))))"

subsection \<open>register (lines 141-161)\<close>

text \<open>
  \<^verbatim>\<open>uuid.uuid4()\<close> is \<^verbatim>\<open>UUID(bytes=os.urandom(16), version=4)\<close>: the variant and
  version bits of the random value are overwritten. \<^verbatim>\<open>.hex\<close> is the value in 32
  lower-case hexadecimal digits.
\<close>

definition uuid_version4 :: "128 word \<Rightarrow> 128 word" where
  "uuid_version4 r =
     (((r AND NOT (push_bit 48 0xc000)) OR push_bit 48 0x8000)
        AND NOT (push_bit 64 0xf000)) OR push_bit 76 4"

definition uuid4 :: "host \<Rightarrow> (128 word) io" where
  "uuid4 h w = (Inr (uuid_version4 (urandom h (drawn w))), w\<lparr>drawn := Suc (drawn w)\<rparr>)"

definition hexdigits :: string where
  "hexdigits = ''0123456789abcdef''"

definition hex_digit :: "nat \<Rightarrow> char" where
  "hex_digit n = hexdigits ! n"

definition uuid_hex :: "128 word \<Rightarrow> string" where
  "uuid_hex u = map (\<lambda>i. hex_digit (unat (drop_bit (4 * (31 - i)) u) mod 16)) [0..<32]"

definition register_config :: "bool \<Rightarrow> string" where
  "register_config remote =
     (let config_type = (if remote then ''remote'' else ''sandbox'')
      in ''.flyte/'' @ config_type @ ''-config.yaml'')"

definition register_args :: "string \<Rightarrow> bool \<Rightarrow> string \<Rightarrow> string list" where
  "register_args version remote domain =
     [''flytectl'', ''-c'', register_config remote, ''register'', ''files'',
      ''--project'', PROJECT_NAME,
      ''--domain'', domain,
      ''--archive'', ''flyte-package.tgz'',
      ''--force'',
      ''--version'', version]"

definition register :: "host \<Rightarrow> string \<Rightarrow> bool \<Rightarrow> bool \<Rightarrow> string \<Rightarrow> unit io" where
  "register h version remote fast domain =
     bind_io (echo ''Registering Flyte workflows...'' False)
       (\<lambda>_. bind_io (if fast
                      then bind_io (uuid4 h)
                             (\<lambda>u. return_io (version @ ''-fast'' @ take 7 (uuid_hex u)))
                      else return_io version)
         (\<lambda>version'.
            bind_io (subprocess_run h (register_args version' remote domain) None)
              (\<lambda>_. echo (''Successfully registered version '' @ version' @ ''.'') False)))"

subsection \<open>main (lines 164-186)\<close>

definition fast_remote_message :: string where
  "fast_remote_message =
     ''Fast registration is not enabled when deploying to remote. ''
     @ ''Please deploy your workflows without the --fast flag.''"

text \<open>Lines 180-184 of \<^verbatim>\<open>main\<close>: the image stage.\<close>

definition main_image_stage :: "host \<Rightarrow> string \<Rightarrow> bool \<Rightarrow> bool \<Rightarrow> unit io" where
  "main_image_stage h tag remote fast =
     (if \<not> fast then
        (if remote then bind_io (docker_build h tag remote) (\<lambda>img. docker_push h img)
         else sandbox_docker_build h tag)
      else return_io ())"

definition main :: "host \<Rightarrow> bool \<Rightarrow> bool \<Rightarrow> string \<Rightarrow> string option \<Rightarrow> unit io" where
  "main h remote fast domain registry =
     bind_io (if remote \<and> fast then echo fast_remote_message True else return_io ())
       (\<lambda>_. bind_io (create_project h remote)
         (\<lambda>_. bind_io (get_version h fast)
           (\<lambda>version.
              let tag = get_tag version registry in
              bind_io (main_image_stage h tag remote fast)
                (\<lambda>_. bind_io (serialize h tag remote fast)
                  (\<lambda>_. register h version remote fast domain)))))"

subsection \<open>Observations on traces and tags\<close>

text \<open>A project-creation call is a subprocess whose command line starts with
  \<^verbatim>\<open>flytectl create project\<close>.\<close>

definition is_creation_call :: "event \<Rightarrow> bool" where
  "is_creation_call ev =
     (case ev of
        Subprocess args _ \<Rightarrow> take 3 args = [''flytectl'', ''create'', ''project'']
      | _ \<Rightarrow> False)"

definition creation_calls :: "event list \<Rightarrow> nat" where
  "creation_calls evs = length (filter is_creation_call evs)"

text \<open>The versions handed to \<^verbatim>\<open>flytectl ... register files ... --version v\<close>, in order.\<close>

definition registered_version :: "event \<Rightarrow> string list" where
  "registered_version ev =
     (case ev of
        Subprocess args _ \<Rightarrow>
          (if take 1 args = [''flytectl''] \<and> take 2 (drop 3 args) = [''register'', ''files'']
              \<and> take 1 (drop 12 args) = [''--version'']
           then take 1 (drop 13 args) else [])
      | _ \<Rightarrow> [])"

definition registered_versions :: "event list \<Rightarrow> string list" where
  "registered_versions evs = concat (map registered_version evs)"

text \<open>The registry component of an image tag: the text before its last slash.\<close>

definition tag_registry :: "string \<Rightarrow> string" where
  "tag_registry t = rev (drop 1 (dropWhile (\<lambda>c. c \<noteq> CHR ''/'') (rev t)))"

text \<open>Two fast registrations of the same version, one after the other, whatever the
  outcome of the first.\<close>

definition register_twice :: "host \<Rightarrow> string \<Rightarrow> bool \<Rightarrow> string \<Rightarrow> world \<Rightarrow> world" where
  "register_twice h version remote domain w =
     snd (register h version remote True domain (snd (register h version remote True domain w)))"

definition succeeded :: "proc_result \<Rightarrow> bool" where
  "succeeded r = (case r of Completed returncode _ \<Rightarrow> returncode = 0 | CannotStart \<Rightarrow> False)"

subsection \<open>Concrete hosts\<close>

text \<open>
  A host on which every external program succeeds without output and without touching
  a file, the build yields an image carrying the requested tag, and the push goes
  through. The working tree is clean at commit \<^verbatim>\<open>abc123\<close>.
\<close>

definition quiet_process ::
  "event list \<Rightarrow> filesystem \<Rightarrow> string list \<Rightarrow> (string \<times> string) list option
     \<Rightarrow> proc_result \<times> filesystem" where
  "quiet_process hist fs args penv = (Completed 0 [], fs)"

definition tagging_build ::
  "event list \<Rightarrow> string \<Rightarrow> string \<Rightarrow> string \<Rightarrow> (string \<times> string) list \<Rightarrow> build_result" where
  "tagging_build hist path dockerfile tag buildargs = Built \<lparr>tags = [tag]\<rparr> [''built'']"

definition smooth_push :: "event list \<Rightarrow> string \<Rightarrow> push_result" where
  "smooth_push hist t = PushStream [''pushed''] True"

definition two_draws :: "nat \<Rightarrow> 128 word" where
  "two_draws n =
     (if n = 0 then 0x0123456789abcdef0123456789abcdef else 0x0123456fedcba9876543210fedcba987)"

definition good_host :: host where
  "good_host =
     \<lparr>environ = [(''HOME'', ''/root'')],
      git_repo = Some \<lparr>is_dirty = False, head_commit = Some \<lparr>hexsha = ''abc123''\<rparr>\<rparr>,
      urandom = two_draws,
      run_process = quiet_process,
      images_build = tagging_build,
      api_push = smooth_push\<rparr>"

text \<open>The same host when the cluster already knows the project.\<close>

definition listing_process ::
  "event list \<Rightarrow> filesystem \<Rightarrow> string list \<Rightarrow> (string \<times> string) list option
     \<Rightarrow> proc_result \<times> filesystem" where
  "listing_process hist fs args penv = (Completed 0 ''vamos-dalhe'', fs)"

definition existing_project_host :: host where
  "existing_project_host = good_host\<lparr>run_process := listing_process\<rparr>"

text \<open>A host on which every external program exits with status 1 and writes nothing.\<close>

definition failing_process ::
  "event list \<Rightarrow> filesystem \<Rightarrow> string list \<Rightarrow> (string \<times> string) list option
     \<Rightarrow> proc_result \<times> filesystem" where
  "failing_process hist fs args penv = (Completed 1 [], fs)"

definition failing_host :: host where
  "failing_host = good_host\<lparr>run_process := failing_process\<rparr>"

text \<open>The same host with uncommitted changes in the working tree.\<close>

definition dirty_host :: host where
  "dirty_host =
     good_host\<lparr>git_repo := Some \<lparr>is_dirty = True, head_commit = Some \<lparr>hexsha = ''abc123''\<rparr>\<rparr>\<rparr>"

text \<open>A repository just initialised: nothing to commit and no commit yet.\<close>

definition unborn_host :: host where
  "unborn_host = good_host\<lparr>git_repo := Some \<lparr>is_dirty = False, head_commit = None\<rparr>\<rparr>"

text \<open>A repository with changes in the working tree and no commit yet.\<close>

definition unborn_dirty_host :: host where
  "unborn_dirty_host = good_host\<lparr>git_repo := Some \<lparr>is_dirty = True, head_commit = None\<rparr>\<rparr>"

definition empty_world :: world where
  "empty_world = \<lparr>trace = [], files = (\<lambda>p. None), drawn = 0\<rparr>"

definition packaged_world :: world where
  "packaged_world =
     \<lparr>trace = [], files = (\<lambda>p. if p = ''flyte-package.tgz'' then Some ''previous'' else None),
      drawn = 0\<rparr>"

section \<open>Properties\<close>

subsection \<open>The primitives, unfolded\<close>

lemmas io_defs = bind_io_def return_io_def raise_io_def emit_def echo_def

lemma echo_all_eq:
  "echo_all ls w = (Inr (), w\<lparr>trace := trace w @ map (\<lambda>l. Echo l False) ls\<rparr>)"
  by (induction ls arbitrary: w) (simp_all add: io_defs)

lemma subprocess_run_eq:
  "subprocess_run h args penv w =
     (case fst (run_process h (trace w) (files w) args penv) of
        CannotStart \<Rightarrow> Inl OSError
      | Completed rc out \<Rightarrow> if rc \<noteq> 0 then Inl (CalledProcessError rc args) else Inr out,
      w\<lparr>trace := trace w @ [Subprocess args penv],
        files := snd (run_process h (trace w) (files w) args penv)\<rparr>)"
  by (simp add: subprocess_run_def Let_def split: prod.splits proc_result.splits)

subsection \<open>Version resolution\<close>

lemma get_version_eq:
  "get_version h fast w =
     (case git_repo h of
        None \<Rightarrow> (Inl InvalidGitRepositoryError, w\<lparr>trace := trace w @ [GitRepo ''.'']\<rparr>)
      | Some r \<Rightarrow>
          if \<not> fast \<and> is_dirty r then
            (Inl (Exit 1),
             w\<lparr>trace := trace w @ [GitRepo ''.'', GitIsDirty, Echo dirty_message True]\<rparr>)
          else
            (case head_commit r of None \<Rightarrow> Inl BadName | Some c \<Rightarrow> Inr (hexsha c),
             w\<lparr>trace := trace w @ [GitRepo ''.'']
                  @ (if fast then [] else [GitIsDirty]) @ [GitRevParse ''HEAD'']\<rparr>))"
  by (simp add: get_version_def git_Repo_def rev_parse_def io_defs Let_def
        split: option.splits)

text \<open>
  Claim C2, as stated, fails: in a repository whose working tree is clean and which has
  no commit yet, \<^verbatim>\<open>get_version\<close> without the fast flag raises, though the tree is
  not dirty.
\<close>

theorem get_version_unborn_counterexample:
  "git_repo unborn_host = Some \<lparr>is_dirty = False, head_commit = None\<rparr>
   \<and> fst (get_version unborn_host False empty_world) = Inl BadName"
  by (simp add: get_version_eq unborn_host_def good_host_def)

text \<open>
  Claim C2, amended. In a repository, without the fast flag: when the working tree is
  dirty, \<^verbatim>\<open>get_version\<close> prints the message to the error stream and raises
  \<^verbatim>\<open>typer.Exit(code=1)\<close>; when the tree is clean and HEAD has a commit, it returns the
  hexsha of that commit; and when HEAD has a commit it raises exactly when the tree is
  dirty.
\<close>

theorem get_version_not_fast:
  "git_repo h = Some r \<Longrightarrow>
     (is_dirty r \<longrightarrow>
        fst (get_version h False w) = Inl (Exit 1)
        \<and> trace (snd (get_version h False w)) =
            trace w @ [GitRepo ''.'', GitIsDirty, Echo dirty_message True])
     \<and> (head_commit r = Some c \<longrightarrow> \<not> is_dirty r \<longrightarrow>
          fst (get_version h False w) = Inr (hexsha c)
          \<and> trace (snd (get_version h False w)) =
              trace w @ [GitRepo ''.'', GitIsDirty, GitRevParse ''HEAD''])
     \<and> (head_commit r = Some c \<longrightarrow>
          isl (fst (get_version h False w)) = is_dirty r)"
  by (simp add: get_version_eq)

text \<open>
  The theorem on a clean and on a dirty repository at commit \<^verbatim>\<open>abc123\<close>.
\<close>

theorem get_version_not_fast_witness:
  "fst (get_version good_host False empty_world) = Inr ''abc123''
   \<and> \<not> isl (fst (get_version good_host False empty_world))
   \<and> fst (get_version dirty_host False empty_world) = Inl (Exit 1)
   \<and> isl (fst (get_version dirty_host False empty_world))"
proof -
  have a: "git_repo good_host = Some \<lparr>is_dirty = False, head_commit = Some \<lparr>hexsha = ''abc123''\<rparr>\<rparr>"
    by (simp add: good_host_def)
  have b: "git_repo dirty_host = Some \<lparr>is_dirty = True, head_commit = Some \<lparr>hexsha = ''abc123''\<rparr>\<rparr>"
    by (simp add: dirty_host_def good_host_def)
  from get_version_not_fast [OF a, where c = "\<lparr>hexsha = ''abc123''\<rparr>" and w = empty_world]
       get_version_not_fast [OF b, where c = "\<lparr>hexsha = ''abc123''\<rparr>" and w = empty_world]
  show ?thesis by simp
qed

text \<open>
  Claim C6, as stated, fails: in a repository with changes in the working tree and no
  commit yet, \<^verbatim>\<open>get_version\<close> with the fast flag raises.
\<close>

theorem get_version_fast_unborn_counterexample:
  "git_repo unborn_dirty_host = Some \<lparr>is_dirty = True, head_commit = None\<rparr>
   \<and> fst (get_version unborn_dirty_host True empty_world) = Inl BadName"
  by (simp add: get_version_eq unborn_dirty_host_def good_host_def)

text \<open>
  Claim C6, amended. In a repository whose HEAD has a commit, dirty or not,
  \<^verbatim>\<open>get_version\<close> with the fast flag does not raise, does not ask whether the tree is
  dirty, and returns the hexsha of the HEAD commit: the value the function returns
  without the flag on a clean tree at the same commit.
\<close>

theorem get_version_fast:
  "git_repo h = Some r \<Longrightarrow> head_commit r = Some c \<Longrightarrow>
     fst (get_version h True w) = Inr (hexsha c)
     \<and> fst (get_version h True w) =
         fst (get_version (h\<lparr>git_repo := Some (r\<lparr>is_dirty := False\<rparr>)\<rparr>) False w')
     \<and> trace (snd (get_version h True w)) = trace w @ [GitRepo ''.'', GitRevParse ''HEAD'']"
  by (simp add: get_version_eq)

text \<open>
  The theorem on a dirty repository at commit \<^verbatim>\<open>abc123\<close>.
\<close>

theorem get_version_fast_witness:
  "is_dirty (the (git_repo dirty_host))
   \<and> fst (get_version dirty_host True empty_world) = Inr ''abc123''
   \<and> fst (get_version dirty_host True empty_world) = fst (get_version good_host False empty_world)"
proof -
  have b: "git_repo dirty_host = Some \<lparr>is_dirty = True, head_commit = Some \<lparr>hexsha = ''abc123''\<rparr>\<rparr>"
    by (simp add: dirty_host_def good_host_def)
  have c: "head_commit \<lparr>is_dirty = True, head_commit = Some \<lparr>hexsha = ''abc123''\<rparr>\<rparr>
             = Some \<lparr>hexsha = ''abc123''\<rparr>"
    by simp
  have d: "dirty_host\<lparr>git_repo := Some (\<lparr>is_dirty = True,
              head_commit = Some \<lparr>hexsha = ''abc123''\<rparr>\<rparr>\<lparr>is_dirty := False\<rparr>)\<rparr> = good_host"
    by (simp add: dirty_host_def good_host_def)
  from get_version_fast [OF b c, where w = empty_world and w' = empty_world]
  have e: "fst (get_version dirty_host True empty_world) = Inr (hexsha \<lparr>hexsha = ''abc123''\<rparr>)"
    and f: "fst (get_version dirty_host True empty_world) =
            fst (get_version good_host False empty_world)"
    unfolding d by blast+
  from e have "fst (get_version dirty_host True empty_world) = Inr ''abc123''"
    by simp
  with f b show ?thesis by simp
qed

subsection \<open>Project provisioning\<close>

text \<open>
  Claim C7. When the existence query succeeds, \<^verbatim>\<open>create_project\<close> issues no
  creation call if the stripped output of the query is not empty, and exactly one
  creation call if it is empty, for either target.
\<close>

theorem create_project_calls:
  "run_process h (trace w) (files w)
      [''flytectl'', ''get'', ''project'', PROJECT_NAME, ''--config'', create_project_config remote]
      None = (Completed 0 out, fs')
   \<Longrightarrow> creation_calls (trace (snd (create_project h remote w)))
         = creation_calls (trace w) + (if strip out = [] then 1 else 0)
       \<and> trace (snd (create_project h remote w))
         = trace w
           @ [Subprocess [''flytectl'', ''get'', ''project'', PROJECT_NAME,
                          ''--config'', create_project_config remote] None]
           @ (if strip out = [] then
                [Echo (''Creating project '' @ PROJECT_NAME @ ''...'') False,
                 Subprocess [''flytectl'', ''create'', ''project'',
                             ''--project'', PROJECT_NAME, ''--name'', PROJECT_NAME,
                             ''--id'', PROJECT_NAME, ''--description'', DESCRIPTION,
                             ''--config'', create_project_config remote] None]
              else [])"
  by (simp add: create_project_def Let_def io_defs subprocess_run_eq creation_calls_def
        is_creation_call_def split: proc_result.splits)

text \<open>
  The theorem at two hosts: one whose query prints nothing, one whose query lists the
  project.
\<close>

theorem create_project_calls_witness:
  "creation_calls (trace (snd (create_project good_host False empty_world))) = 1
   \<and> creation_calls (trace (snd (create_project existing_project_host False empty_world))) = 0"
proof -
  have a: "run_process good_host (trace empty_world) (files empty_world)
             [''flytectl'', ''get'', ''project'', PROJECT_NAME, ''--config'',
              create_project_config False] None = (Completed 0 [], files empty_world)"
    by (simp add: good_host_def quiet_process_def)
  have b: "run_process existing_project_host (trace empty_world) (files empty_world)
             [''flytectl'', ''get'', ''project'', PROJECT_NAME, ''--config'',
              create_project_config False] None = (Completed 0 ''vamos-dalhe'', files empty_world)"
    by (simp add: existing_project_host_def good_host_def listing_process_def)
  have c: "strip [] = []" "strip ''vamos-dalhe'' \<noteq> []"
    by (simp_all add: strip_def is_space_def)
  have d: "creation_calls (trace empty_world) = 0"
    by (simp add: empty_world_def creation_calls_def)
  show ?thesis
    using create_project_calls [OF a, THEN conjunct1] create_project_calls [OF b, THEN conjunct1]
      c d by simp
qed

subsection \<open>Image tags\<close>

lemma REGISTRY_value: "REGISTRY = ''ghcr.io/patrickfbraz''"
  by (simp add: REGISTRY_def lower_def lower_char_def)

text \<open>
  Claim C8. The image tag is \<^verbatim>\<open>{registry}/{image-name}:{project-name}-{version}\<close>,
  where the registry is the supplied one or else the default; it is a function of the
  version and the registry argument alone. With version \<^verbatim>\<open>abc123\<close> and the
  override \<^verbatim>\<open>myregistry.io\<close> the tag is
  \<^verbatim>\<open>myregistry.io/flytelab:vamos-dalhe-abc123\<close>, and with the default registry it is
  \<^verbatim>\<open>ghcr.io/patrickfbraz/flytelab:vamos-dalhe-abc123\<close>.
\<close>

theorem get_tag_format:
  "get_tag version (Some registry) =
     registry @ ''/'' @ IMAGE_NAME @ '':'' @ PROJECT_NAME @ ''-'' @ version
   \<and> get_tag version None =
     REGISTRY @ ''/'' @ IMAGE_NAME @ '':'' @ PROJECT_NAME @ ''-'' @ version
   \<and> get_tag ''abc123'' (Some ''myregistry.io'') = ''myregistry.io/flytelab:vamos-dalhe-abc123''
   \<and> get_tag ''abc123'' None = ''ghcr.io/patrickfbraz/flytelab:vamos-dalhe-abc123''"
  by (simp add: get_tag_def REGISTRY_value IMAGE_NAME_def PROJECT_NAME_def)

text \<open>
  Claim C4 does not hold of the code. The default registry is lower-cased where the
  module defines it, but a registry passed by the caller goes into the tag as it is:
  the registry component of the tag built for \<^verbatim>\<open>MyRegistry.IO\<close> is
  \<^verbatim>\<open>MyRegistry.IO\<close>, not \<^verbatim>\<open>myregistry.io\<close>.
\<close>

theorem get_tag_keeps_registry_case:
  "get_tag ''abc123'' (Some ''MyRegistry.IO'') = ''MyRegistry.IO/flytelab:vamos-dalhe-abc123''
   \<and> tag_registry (get_tag ''abc123'' (Some ''MyRegistry.IO'')) = ''MyRegistry.IO''
   \<and> lower (tag_registry (get_tag ''abc123'' (Some ''MyRegistry.IO''))) = ''myregistry.io''
   \<and> lower (tag_registry (get_tag ''abc123'' (Some ''MyRegistry.IO'')))
       \<noteq> tag_registry (get_tag ''abc123'' (Some ''MyRegistry.IO''))
   \<and> lower (tag_registry (get_tag ''abc123'' None)) = tag_registry (get_tag ''abc123'' None)"
  by code_simp

subsection \<open>Registration\<close>

lemma register_eq:
  "register h version remote fast domain w =
     (let v = (if fast then version @ ''-fast'' @ take 7 (uuid_hex (uuid_version4 (urandom h (drawn w))))
               else version);
          w1 = w\<lparr>trace := trace w @ [Echo ''Registering Flyte workflows...'' False],
                  drawn := (if fast then Suc (drawn w) else drawn w)\<rparr>;
          r = run_process h (trace w1) (files w1) (register_args v remote domain) None;
          w2 = w1\<lparr>trace := trace w1 @ [Subprocess (register_args v remote domain) None],
                   files := snd r\<rparr>
      in case fst r of
           CannotStart \<Rightarrow> (Inl OSError, w2)
         | Completed rc out \<Rightarrow>
             if rc \<noteq> 0 then (Inl (CalledProcessError rc (register_args v remote domain)), w2)
             else (Inr (), w2\<lparr>trace := trace w2
                      @ [Echo (''Successfully registered version '' @ v @ ''.'') False]\<rparr>))"
  by (simp add: register_def io_defs uuid4_def subprocess_run_eq Let_def
        split: proc_result.splits)

lemma registered_versions_append:
  "registered_versions (xs @ ys) = registered_versions xs @ registered_versions ys"
  by (simp add: registered_versions_def)

lemma registered_version_register_args:
  "registered_version (Subprocess (register_args v remote domain) penv) = [v]"
  by (simp add: registered_version_def register_args_def)

lemma registered_versions_simps:
  "registered_versions [] = []"
  "registered_versions (e # es) = registered_version e @ registered_versions es"
  "registered_version (Echo m err) = []"
  by (simp_all add: registered_versions_def registered_version_def)

lemma register_versions:
  "registered_versions (trace (snd (register h version remote fast domain w))) =
     registered_versions (trace w)
     @ [if fast then version @ ''-fast'' @ take 7 (uuid_hex (uuid_version4 (urandom h (drawn w))))
        else version]"
  by (simp add: register_eq Let_def registered_versions_append registered_version_register_args
        registered_versions_simps split: proc_result.splits)

lemma register_drawn:
  "drawn (snd (register h version remote fast domain w)) = (if fast then Suc (drawn w) else drawn w)"
  by (simp add: register_eq Let_def split: proc_result.splits)

lemma hex_digit_in: "n < 16 \<Longrightarrow> hex_digit n \<in> set hexdigits"
  unfolding hex_digit_def by (rule nth_mem) (simp add: hexdigits_def)

lemma uuid_hex_length: "length (uuid_hex u) = 32"
  by (simp add: uuid_hex_def)

lemma uuid_hex_set: "set (uuid_hex u) \<subseteq> set hexdigits"
proof
  fix c assume "c \<in> set (uuid_hex u)"
  then obtain n where "c = hex_digit (n mod 16)"
    by (auto simp: uuid_hex_def)
  then show "c \<in> set hexdigits"
    by (simp add: hex_digit_in)
qed

lemma upt_7: "[0..<7] = [0, 1, 2, 3, 4, 5, 6::nat]"
  by (simp add: upt_rec)

lemma two_draws_prefix:
  "take 7 (uuid_hex (uuid_version4 (two_draws 0))) = ''0123456''"
  "take 7 (uuid_hex (uuid_version4 (two_draws (Suc 0)))) = ''0123456''"
  by (simp_all add: uuid_hex_def hex_digit_def hexdigits_def uuid_version4_def two_draws_def
        take_map drop_bit_eq_div unat_div upt_7)

text \<open>
  Claim C3, as stated, fails: two distinct random values whose first seven
  hexadecimal digits agree give the same final version twice.
\<close>

theorem fast_versions_collide_counterexample:
  "urandom good_host 0 \<noteq> urandom good_host 1
   \<and> registered_versions (trace (register_twice good_host ''abc123'' False ''development''
        empty_world)) = [''abc123-fast0123456'', ''abc123-fast0123456'']"
proof -
  have "two_draws 0 \<noteq> two_draws 1"
    by (simp add: two_draws_def)
  moreover have "registered_versions (trace (register_twice good_host ''abc123'' False
      ''development'' empty_world)) = [''abc123-fast0123456'', ''abc123-fast0123456'']"
    by (simp add: register_twice_def register_versions register_drawn good_host_def
          empty_world_def two_draws_prefix registered_versions_simps)
  ultimately show ?thesis by (simp add: good_host_def)
qed

text \<open>
  Claim C3, amended. Two consecutive fast registrations of a version hand to the
  registration tool the version followed by \<^verbatim>\<open>-fast\<close> and the first seven
  hexadecimal digits of a fresh uuid4 each; the two final versions differ exactly when
  these two seven-digit prefixes differ.
\<close>

theorem fast_versions:
  "registered_versions (trace (register_twice h version remote domain w)) =
     registered_versions (trace w)
     @ [version @ ''-fast'' @ take 7 (uuid_hex (uuid_version4 (urandom h (drawn w)))),
        version @ ''-fast'' @ take 7 (uuid_hex (uuid_version4 (urandom h (Suc (drawn w)))))]
   \<and> length (take 7 (uuid_hex u)) = 7
   \<and> set (take 7 (uuid_hex u)) \<subseteq> set hexdigits
   \<and> ((version @ ''-fast'' @ take 7 (uuid_hex u) \<noteq> version @ ''-fast'' @ take 7 (uuid_hex u'))
        = (take 7 (uuid_hex u) \<noteq> take 7 (uuid_hex u')))"
proof -
  have "set (take 7 (uuid_hex u)) \<subseteq> set (uuid_hex u)"
    by (rule set_take_subset)
  then have "set (take 7 (uuid_hex u)) \<subseteq> set hexdigits"
    using uuid_hex_set by blast
  then show ?thesis
    by (simp add: register_twice_def register_versions register_drawn uuid_hex_length
          )
qed

subsection \<open>Packaging\<close>

lemma serialize_eq:
  "serialize h tag remote fast w =
     (let w1 = w\<lparr>trace := trace w @ [Echo ''Serializing Flyte workflows...'' False]\<rparr>;
          w2 = (if files w package_path \<noteq> None
                then w1\<lparr>trace := trace w1 @ [Remove package_path],
                        files := (files w)(package_path := None)\<rparr>
                else w1);
          r = run_process h (trace w2) (files w2) (serialize_args tag remote fast)
                (Some (serialize_env h remote));
          w3 = w2\<lparr>trace := trace w2 @ [Subprocess (serialize_args tag remote fast)
                                           (Some (serialize_env h remote))],
                   files := snd r\<rparr>
      in (case fst r of
            CannotStart \<Rightarrow> Inl OSError
          | Completed rc out \<Rightarrow>
              if rc \<noteq> 0 then Inl (CalledProcessError rc (serialize_args tag remote fast))
              else Inr (), w3))"
  by (simp add: serialize_def io_defs path_exists_def os_remove_def subprocess_run_eq Let_def
        split: proc_result.splits)

text \<open>
  Claim C10. When an archive exists, \<^verbatim>\<open>serialize\<close> removes it before it runs
  the packaging tool, which therefore starts without the archive; the files left after
  \<^verbatim>\<open>serialize\<close> are those the tool leaves. So when the tool fails and has written
  no archive, \<^verbatim>\<open>serialize\<close> raises and no archive is on disk: the previous one is
  gone.
\<close>

theorem serialize_removes_before_packaging:
  "files w package_path = Some old \<Longrightarrow>
   run_process h (trace w @ [Echo ''Serializing Flyte workflows...'' False, Remove package_path])
     ((files w)(package_path := None)) (serialize_args tag remote fast)
     (Some (serialize_env h remote)) = (r, fs') \<Longrightarrow>
   trace (snd (serialize h tag remote fast w)) =
     trace w @ [Echo ''Serializing Flyte workflows...'' False, Remove package_path,
                Subprocess (serialize_args tag remote fast) (Some (serialize_env h remote))]
   \<and> files (snd (serialize h tag remote fast w)) = fs'
   \<and> isl (fst (serialize h tag remote fast w)) = (\<not> succeeded r)
   \<and> (\<not> succeeded r \<longrightarrow> fs' package_path = None \<longrightarrow>
        isl (fst (serialize h tag remote fast w))
        \<and> files (snd (serialize h tag remote fast w)) package_path = None)"
  by (simp add: serialize_eq Let_def succeeded_def split: proc_result.splits)

text \<open>
  The theorem on a host whose tools all fail, starting with an archive on disk.
\<close>

theorem serialize_removes_before_packaging_witness:
  "files packaged_world package_path = Some ''previous''
   \<and> fst (serialize failing_host ''t'' False False packaged_world)
       = Inl (CalledProcessError 1 (serialize_args ''t'' False False))
   \<and> files (snd (serialize failing_host ''t'' False False packaged_world)) package_path = None"
proof -
  have a: "files packaged_world package_path = Some ''previous''"
    by (simp add: packaged_world_def package_path_def)
  have b: "run_process failing_host
      (trace packaged_world @ [Echo ''Serializing Flyte workflows...'' False, Remove package_path])
      ((files packaged_world)(package_path := None)) (serialize_args ''t'' False False)
      (Some (serialize_env failing_host False))
      = (Completed 1 [], (files packaged_world)(package_path := None))"
    by (simp add: failing_host_def good_host_def failing_process_def)
  have c: "\<not> succeeded (Completed 1 [])"
    by (simp add: succeeded_def)
  have d: "fst (serialize failing_host ''t'' False False packaged_world)
       = Inl (CalledProcessError 1 (serialize_args ''t'' False False))"
    using a by (simp add: serialize_eq Let_def failing_host_def good_host_def failing_process_def)
  from serialize_removes_before_packaging [OF a b] c
  have "files (snd (serialize failing_host ''t'' False False packaged_world)) package_path = None"
    by simp
  with a d show ?thesis by simp
qed

subsection \<open>The image stage\<close>

lemma docker_build_eq:
  "docker_build h tag remote w =
     (let w1 = w\<lparr>trace := trace w @ [Echo (''Building image: '' @ tag @ ''...'') False]\<rparr>;
          buildargs = [(''image'', tag), (''config'', docker_build_config remote)];
          w2 = w1\<lparr>trace := trace w1 @ [DockerBuild ''.'' ''Dockerfile'' tag buildargs]\<rparr>
      in case images_build h (trace w1) ''.'' ''Dockerfile'' tag buildargs of
           BuildFailed \<Rightarrow> (Inl BuildError, w2)
         | Built img build_logs \<Rightarrow>
             (Inr img, w2\<lparr>trace := trace w2 @ map (\<lambda>l. Echo l False) build_logs\<rparr>))"
  by (simp add: docker_build_def client_images_build_def io_defs echo_all_eq Let_def
        split: build_result.splits)

lemma docker_push_eq:
  "docker_push h img w =
     (case tags img of
        [] \<Rightarrow> (Inl IndexError, w)
      | t # ts \<Rightarrow>
          (if push_ok (api_push h (trace w) t) then Inr () else Inl APIError,
           w\<lparr>trace := trace w @ [DockerPush t]
                @ map (\<lambda>l. Echo l False) (push_lines (api_push h (trace w) t))\<rparr>))"
  by (simp add: docker_push_def client_api_push_def io_defs echo_all_eq
        split: list.splits push_result.splits)

lemma sandbox_docker_build_eq:
  "sandbox_docker_build h tag w =
     (let w1 = w\<lparr>trace := trace w @ [Echo ''Building image in Flyte sandbox...'' False]\<rparr>;
          args = [''flytectl'', ''sandbox'', ''exec'', ''--'', ''docker'', ''build'', ''.'', ''--tag'', tag];
          r = run_process h (trace w1) (files w1) args None
      in (case fst r of
            CannotStart \<Rightarrow> Inl OSError
          | Completed rc out \<Rightarrow> if rc \<noteq> 0 then Inl (CalledProcessError rc args) else Inr (),
          w1\<lparr>trace := trace w1 @ [Subprocess args None], files := snd r\<rparr>))"
  by (simp add: sandbox_docker_build_def io_defs subprocess_run_eq Let_def
        split: proc_result.splits)

text \<open>
  Claim C5. The image stage of \<^verbatim>\<open>main\<close>: with the fast flag nothing happens at
  all; for the sandbox without the flag the only call is the build delegated to the
  sandbox (no local build, no push); for a remote target without the flag the image is
  built locally, and when the build succeeds its first tag is pushed, while a failed
  build raises before any push.
\<close>

theorem image_stage_state_machine:
  "main_image_stage h tag remote True w = (Inr (), w)
   \<and> trace (snd (main_image_stage h tag False False w)) =
       trace w @ [Echo ''Building image in Flyte sandbox...'' False,
                  Subprocess [''flytectl'', ''sandbox'', ''exec'', ''--'',
                              ''docker'', ''build'', ''.'', ''--tag'', tag] None]
   \<and> (images_build h (trace w @ [Echo (''Building image: '' @ tag @ ''...'') False])
         ''.'' ''Dockerfile'' tag [(''image'', tag), (''config'', ''.flyte/remote.config'')]
         = BuildFailed \<longrightarrow>
       main_image_stage h tag True False w =
         (Inl BuildError,
          w\<lparr>trace := trace w @ [Echo (''Building image: '' @ tag @ ''...'') False,
             DockerBuild ''.'' ''Dockerfile'' tag
               [(''image'', tag), (''config'', ''.flyte/remote.config'')]]\<rparr>))
   \<and> (images_build h (trace w @ [Echo (''Building image: '' @ tag @ ''...'') False])
         ''.'' ''Dockerfile'' tag [(''image'', tag), (''config'', ''.flyte/remote.config'')]
         = Built img logs \<longrightarrow> tags img = t # ts \<longrightarrow>
       trace (snd (main_image_stage h tag True False w)) =
         trace w @ [Echo (''Building image: '' @ tag @ ''...'') False,
                    DockerBuild ''.'' ''Dockerfile'' tag
                      [(''image'', tag), (''config'', ''.flyte/remote.config'')]]
           @ map (\<lambda>l. Echo l False) logs
           @ [DockerPush t]
           @ map (\<lambda>l. Echo l False)
               (push_lines (api_push h
                  (trace w @ [Echo (''Building image: '' @ tag @ ''...'') False,
                              DockerBuild ''.'' ''Dockerfile'' tag
                                [(''image'', tag), (''config'', ''.flyte/remote.config'')]]
                     @ map (\<lambda>l. Echo l False) logs) t)))"
proof -
  have a: "main_image_stage h tag remote True w = (Inr (), w)"
    by (simp add: main_image_stage_def return_io_def)
  have b: "trace (snd (main_image_stage h tag False False w)) =
       trace w @ [Echo ''Building image in Flyte sandbox...'' False,
                  Subprocess [''flytectl'', ''sandbox'', ''exec'', ''--'',
                              ''docker'', ''build'', ''.'', ''--tag'', tag] None]"
    by (simp add: main_image_stage_def sandbox_docker_build_eq Let_def)
  have c: "docker_build_config True = ''.flyte/remote.config''"
    by (simp add: docker_build_config_def)
  have d: "main_image_stage h tag True False w =
         (Inl BuildError,
          w\<lparr>trace := trace w @ [Echo (''Building image: '' @ tag @ ''...'') False,
             DockerBuild ''.'' ''Dockerfile'' tag
               [(''image'', tag), (''config'', ''.flyte/remote.config'')]]\<rparr>)"
    if "images_build h (trace w @ [Echo (''Building image: '' @ tag @ ''...'') False])
         ''.'' ''Dockerfile'' tag [(''image'', tag), (''config'', ''.flyte/remote.config'')]
         = BuildFailed"
    using that by (simp add: main_image_stage_def bind_io_def docker_build_eq Let_def c)
  have e: "trace (snd (main_image_stage h tag True False w)) =
         trace w @ [Echo (''Building image: '' @ tag @ ''...'') False,
                    DockerBuild ''.'' ''Dockerfile'' tag
                      [(''image'', tag), (''config'', ''.flyte/remote.config'')]]
           @ map (\<lambda>l. Echo l False) logs
           @ [DockerPush t]
           @ map (\<lambda>l. Echo l False)
               (push_lines (api_push h
                  (trace w @ [Echo (''Building image: '' @ tag @ ''...'') False,
                              DockerBuild ''.'' ''Dockerfile'' tag
                                [(''image'', tag), (''config'', ''.flyte/remote.config'')]]
                     @ map (\<lambda>l. Echo l False) logs) t))"
    if "images_build h (trace w @ [Echo (''Building image: '' @ tag @ ''...'') False])
         ''.'' ''Dockerfile'' tag [(''image'', tag), (''config'', ''.flyte/remote.config'')]
         = Built img logs" and "tags img = t # ts"
    using that
    by (simp add: main_image_stage_def bind_io_def docker_build_eq docker_push_eq Let_def c)
  from a b d e show ?thesis by blast
qed

text \<open>
  The theorem on a host whose build and push succeed; and the sandbox build on a host
  whose tools fail.
\<close>

theorem image_stage_state_machine_witness:
  "trace (snd (main_image_stage good_host ''r/i:v'' True False empty_world)) =
     [Echo ''Building image: r/i:v...'' False,
      DockerBuild ''.'' ''Dockerfile'' ''r/i:v''
        [(''image'', ''r/i:v''), (''config'', ''.flyte/remote.config'')],
      Echo ''built'' False,
      DockerPush ''r/i:v'',
      Echo ''pushed'' False]
   \<and> fst (main_image_stage failing_host ''r/i:v'' False False empty_world) =
       Inl (CalledProcessError 1 [''flytectl'', ''sandbox'', ''exec'', ''--'',
                                  ''docker'', ''build'', ''.'', ''--tag'', ''r/i:v''])"
proof -
  have a: "images_build good_host (trace empty_world @ [Echo (''Building image: '' @ ''r/i:v'' @ ''...'') False])
         ''.'' ''Dockerfile'' ''r/i:v'' [(''image'', ''r/i:v''), (''config'', ''.flyte/remote.config'')]
         = Built \<lparr>tags = [''r/i:v'']\<rparr> [''built'']"
    by (simp add: good_host_def tagging_build_def)
  have b: "tags \<lparr>tags = [''r/i:v'']\<rparr> = ''r/i:v'' # []"
    by simp
  have c: "api_push good_host hist t = PushStream [''pushed''] True" for hist t
    by (simp add: good_host_def smooth_push_def)
  have d: "fst (main_image_stage failing_host ''r/i:v'' False False empty_world) =
       Inl (CalledProcessError 1 [''flytectl'', ''sandbox'', ''exec'', ''--'',
                                  ''docker'', ''build'', ''.'', ''--tag'', ''r/i:v''])"
    by (simp add: main_image_stage_def sandbox_docker_build_eq Let_def failing_host_def
          good_host_def failing_process_def)
  from image_stage_state_machine [of good_host "''r/i:v''" True empty_world
      "\<lparr>tags = [''r/i:v'']\<rparr>" "[''built'']" "''r/i:v''" "[]"] a b
  have "trace (snd (main_image_stage good_host ''r/i:v'' True False empty_world)) =
         trace empty_world @ [Echo (''Building image: '' @ ''r/i:v'' @ ''...'') False,
                    DockerBuild ''.'' ''Dockerfile'' ''r/i:v''
                      [(''image'', ''r/i:v''), (''config'', ''.flyte/remote.config'')]]
           @ map (\<lambda>l. Echo l False) [''built'']
           @ [DockerPush ''r/i:v'']
           @ map (\<lambda>l. Echo l False)
               (push_lines (api_push good_host
                  (trace empty_world @ [Echo (''Building image: '' @ ''r/i:v'' @ ''...'') False,
                              DockerBuild ''.'' ''Dockerfile'' ''r/i:v''
                                [(''image'', ''r/i:v''), (''config'', ''.flyte/remote.config'')]]
                     @ map (\<lambda>l. Echo l False) [''built'']) ''r/i:v''))"
    by blast
  then show ?thesis
    using d by (simp add: c empty_world_def)
qed

subsection \<open>The whole run\<close>

lemma create_project_eq:
  "create_project h remote w =
     (let q = [''flytectl'', ''get'', ''project'', PROJECT_NAME, ''--config'',
               create_project_config remote];
          c = [''flytectl'', ''create'', ''project'', ''--project'', PROJECT_NAME,
               ''--name'', PROJECT_NAME, ''--id'', PROJECT_NAME,
               ''--description'', DESCRIPTION, ''--config'', create_project_config remote];
          r = run_process h (trace w) (files w) q None;
          w1 = w\<lparr>trace := trace w @ [Subprocess q None], files := snd r\<rparr>
      in case fst r of
           CannotStart \<Rightarrow> (Inl OSError, w1)
         | Completed rc out \<Rightarrow>
             if rc \<noteq> 0 then (Inl (CalledProcessError rc q), w1)
             else if strip out = [] then
               (let w2 = w1\<lparr>trace := trace w1
                            @ [Echo (''Creating project '' @ PROJECT_NAME @ ''...'') False]\<rparr>;
                    r2 = run_process h (trace w2) (files w2) c None
                in (case fst r2 of
                      CannotStart \<Rightarrow> Inl OSError
                    | Completed rc2 out2 \<Rightarrow>
                        if rc2 \<noteq> 0 then Inl (CalledProcessError rc2 c) else Inr (),
                    w2\<lparr>trace := trace w2 @ [Subprocess c None], files := snd r2\<rparr>))
             else (Inr (), w1))"
  by (simp add: create_project_def io_defs subprocess_run_eq Let_def split: proc_result.splits)

lemma create_project_first:
  "\<exists>evs. trace (snd (create_project h remote w)) =
     trace w @ Subprocess [''flytectl'', ''get'', ''project'', PROJECT_NAME, ''--config'',
                           create_project_config remote] None # evs"
  by (simp add: create_project_eq Let_def split: proc_result.splits)

lemma bind_io_appends:
  assumes "\<And>w. \<exists>evs. trace (snd (m w)) = trace w @ evs"
    and "\<And>x w. \<exists>evs. trace (snd (f x w)) = trace w @ evs"
  shows "\<exists>evs. trace (snd (bind_io m f w)) = trace w @ evs"
proof (cases "m w")
  case (Pair r w1)
  from assms(1) [of w] Pair obtain evs where e: "trace w1 = trace w @ evs" by auto
  show ?thesis
  proof (cases r)
    case (Inl err)
    with Pair e show ?thesis by (simp add: bind_io_def)
  next
    case (Inr x)
    from assms(2) [of x w1] obtain evs' where "trace (snd (f x w1)) = trace w1 @ evs'" by auto
    with Pair Inr e show ?thesis by (simp add: bind_io_def)
  qed
qed

lemma get_version_appends: "\<exists>evs. trace (snd (get_version h fast w)) = trace w @ evs"
  by (simp add: get_version_eq split: option.splits)

lemma serialize_appends: "\<exists>evs. trace (snd (serialize h tag remote fast w)) = trace w @ evs"
  by (simp add: serialize_eq Let_def)

lemma register_appends: "\<exists>evs. trace (snd (register h version remote fast domain w)) = trace w @ evs"
  by (simp add: register_eq Let_def split: proc_result.splits)

lemma docker_build_appends: "\<exists>evs. trace (snd (docker_build h tag remote w)) = trace w @ evs"
  by (simp add: docker_build_eq Let_def split: build_result.splits)

lemma docker_push_appends: "\<exists>evs. trace (snd (docker_push h img w)) = trace w @ evs"
  by (simp add: docker_push_eq split: list.splits)

lemma sandbox_docker_build_appends: "\<exists>evs. trace (snd (sandbox_docker_build h tag w)) = trace w @ evs"
  by (simp add: sandbox_docker_build_eq Let_def)

lemma main_image_stage_appends:
  "\<exists>evs. trace (snd (main_image_stage h tag remote fast w)) = trace w @ evs"
  unfolding main_image_stage_def
  by (auto simp: return_io_def sandbox_docker_build_appends
        intro!: bind_io_appends docker_build_appends docker_push_appends)

lemma main_tail_appends:
  "\<exists>evs. trace (snd (bind_io (get_version h fast)
           (\<lambda>version.
              let tag = get_tag version registry in
              bind_io (main_image_stage h tag remote fast)
                (\<lambda>_. bind_io (serialize h tag remote fast)
                  (\<lambda>_. register h version remote fast domain))) w)) = trace w @ evs"
  unfolding Let_def
  by (intro bind_io_appends get_version_appends main_image_stage_appends serialize_appends
        register_appends)

text \<open>
  Claim C1 does not hold of the code. With the remote and the fast flag together,
  \<^verbatim>\<open>main\<close> prints the warning to the error stream and carries on: on every host the
  next event is the project query of \<^verbatim>\<open>create_project\<close>, and on a host where every
  tool succeeds the run provisions the project, resolves the version, packages with
  \<^verbatim>\<open>--fast\<close> and registers a fast version against the remote profile, returning
  normally.
\<close>

theorem main_remote_fast_proceeds:
  "(\<exists>evs. trace (snd (main h True True domain registry w)) =
      trace w @ Echo fast_remote_message True
        # Subprocess [''flytectl'', ''get'', ''project'', PROJECT_NAME, ''--config'',
                      ''.flyte/remote-config.yaml''] None # evs)
   \<and> fst (main good_host True True ''development'' None empty_world) = Inr ()
   \<and> trace (snd (main good_host True True ''development'' None empty_world)) =
       [Echo fast_remote_message True,
        Subprocess [''flytectl'', ''get'', ''project'', ''vamos-dalhe'', ''--config'',
                    ''.flyte/remote-config.yaml''] None,
        Echo ''Creating project vamos-dalhe...'' False,
        Subprocess [''flytectl'', ''create'', ''project'', ''--project'', ''vamos-dalhe'',
                    ''--name'', ''vamos-dalhe'', ''--id'', ''vamos-dalhe'',
                    ''--description'', ''Hurb project to the Flyte Hackathon'',
                    ''--config'', ''.flyte/remote-config.yaml''] None,
        GitRepo ''.'',
        GitRevParse ''HEAD'',
        Echo ''Serializing Flyte workflows...'' False,
        Subprocess [''pyflyte'', ''-c'', ''.flyte/remote.config'',
                    ''--pkgs'', ''destinations_similarity'', ''package'', ''--force'',
                    ''--image'', ''ghcr.io/patrickfbraz/flytelab:vamos-dalhe-abc123'',
                    ''--fast'']
          (Some [(''FLYTE_SANDBOX'', ''0''), (''HOME'', ''/root'')]),
        Echo ''Registering Flyte workflows...'' False,
        Subprocess [''flytectl'', ''-c'', ''.flyte/remote-config.yaml'', ''register'', ''files'',
                    ''--project'', ''vamos-dalhe'', ''--domain'', ''development'',
                    ''--archive'', ''flyte-package.tgz'', ''--force'',
                    ''--version'', ''abc123-fast0123456''] None,
        Echo ''Successfully registered version abc123-fast0123456.'' False]"
proof -
  let ?w0 = "w\<lparr>trace := trace w @ [Echo fast_remote_message True]\<rparr>"
  let ?K = "\<lambda>_::unit. bind_io (get_version h True)
           (\<lambda>version.
              let tag = get_tag version registry in
              bind_io (main_image_stage h tag True True)
                (\<lambda>_. bind_io (serialize h tag True True)
                  (\<lambda>_. register h version True True domain)))"
  have m: "main h True True domain registry w = bind_io (create_project h True) ?K ?w0"
    by (simp add: main_def io_defs)
  have cfg: "create_project_config True = ''.flyte/remote-config.yaml''"
    by (simp add: create_project_config_def)
  obtain evs where e: "trace (snd (create_project h True ?w0)) =
      trace ?w0 @ Subprocess [''flytectl'', ''get'', ''project'', PROJECT_NAME, ''--config'',
                           ''.flyte/remote-config.yaml''] None # evs"
    using create_project_first [of h True ?w0] cfg by auto
  have a: "\<exists>evs. trace (snd (main h True True domain registry w)) =
      trace w @ Echo fast_remote_message True
        # Subprocess [''flytectl'', ''get'', ''project'', PROJECT_NAME, ''--config'',
                      ''.flyte/remote-config.yaml''] None # evs"
  proof (cases "create_project h True ?w0")
    case (Pair r w1)
    show ?thesis
    proof (cases r)
      case (Inl err)
      with Pair e show ?thesis by (simp add: m bind_io_def)
    next
      case (Inr x)
      obtain evs' where "trace (snd (?K x w1)) = trace w1 @ evs'"
        using main_tail_appends [of h True registry True domain w1] by auto
      with Pair Inr e show ?thesis by (simp add: m bind_io_def)
    qed
  qed
  have g: "get_tag ''abc123'' None = ''ghcr.io/patrickfbraz/flytelab:vamos-dalhe-abc123''"
    by (simp add: get_tag_def REGISTRY_value IMAGE_NAME_def PROJECT_NAME_def)
  have s: "strip [] = []"
    by (simp add: strip_def)
  have run: "main good_host True True ''development'' None empty_world =
      (Inr (), \<lparr>trace = [Echo fast_remote_message True,
        Subprocess [''flytectl'', ''get'', ''project'', ''vamos-dalhe'', ''--config'',
                    ''.flyte/remote-config.yaml''] None,
        Echo ''Creating project vamos-dalhe...'' False,
        Subprocess [''flytectl'', ''create'', ''project'', ''--project'', ''vamos-dalhe'',
                    ''--name'', ''vamos-dalhe'', ''--id'', ''vamos-dalhe'',
                    ''--description'', ''Hurb project to the Flyte Hackathon'',
                    ''--config'', ''.flyte/remote-config.yaml''] None,
        GitRepo ''.'',
        GitRevParse ''HEAD'',
        Echo ''Serializing Flyte workflows...'' False,
        Subprocess [''pyflyte'', ''-c'', ''.flyte/remote.config'',
                    ''--pkgs'', ''destinations_similarity'', ''package'', ''--force'',
                    ''--image'', ''ghcr.io/patrickfbraz/flytelab:vamos-dalhe-abc123'',
                    ''--fast'']
          (Some [(''FLYTE_SANDBOX'', ''0''), (''HOME'', ''/root'')]),
        Echo ''Registering Flyte workflows...'' False,
        Subprocess [''flytectl'', ''-c'', ''.flyte/remote-config.yaml'', ''register'', ''files'',
                    ''--project'', ''vamos-dalhe'', ''--domain'', ''development'',
                    ''--archive'', ''flyte-package.tgz'', ''--force'',
                    ''--version'', ''abc123-fast0123456''] None,
        Echo ''Successfully registered version abc123-fast0123456.'' False],
         files = \<lambda>p. None, drawn = Suc 0\<rparr>)"
    by (simp add: main_def bind_io_def echo_def emit_def return_io_def create_project_eq
          get_version_eq g s main_image_stage_def serialize_eq register_eq Let_def
          good_host_def quiet_process_def empty_world_def two_draws_prefix
          serialize_args_def serialize_env_def serialize_config_def register_args_def
          register_config_def create_project_config_def dict_unpack_def package_path_def
          PROJECT_NAME_def DESCRIPTION_def)
  have b: "fst (main good_host True True ''development'' None empty_world) = Inr ()"
    by (simp only: run fst_conv)
  have c: "trace (snd (main good_host True True ''development'' None empty_world)) =
       [Echo fast_remote_message True,
        Subprocess [''flytectl'', ''get'', ''project'', ''vamos-dalhe'', ''--config'',
                    ''.flyte/remote-config.yaml''] None,
        Echo ''Creating project vamos-dalhe...'' False,
        Subprocess [''flytectl'', ''create'', ''project'', ''--project'', ''vamos-dalhe'',
                    ''--name'', ''vamos-dalhe'', ''--id'', ''vamos-dalhe'',
                    ''--description'', ''Hurb project to the Flyte Hackathon'',
                    ''--config'', ''.flyte/remote-config.yaml''] None,
        GitRepo ''.'',
        GitRevParse ''HEAD'',
        Echo ''Serializing Flyte workflows...'' False,
        Subprocess [''pyflyte'', ''-c'', ''.flyte/remote.config'',
                    ''--pkgs'', ''destinations_similarity'', ''package'', ''--force'',
                    ''--image'', ''ghcr.io/patrickfbraz/flytelab:vamos-dalhe-abc123'',
                    ''--fast'']
          (Some [(''FLYTE_SANDBOX'', ''0''), (''HOME'', ''/root'')]),
        Echo ''Registering Flyte workflows...'' False,
        Subprocess [''flytectl'', ''-c'', ''.flyte/remote-config.yaml'', ''register'', ''files'',
                    ''--project'', ''vamos-dalhe'', ''--domain'', ''development'',
                    ''--archive'', ''flyte-package.tgz'', ''--force'',
                    ''--version'', ''abc123-fast0123456''] None,
        Echo ''Successfully registered version abc123-fast0123456.'' False]"
    by (simp only: run snd_conv world.simps)
  from a b c show ?thesis by blast
qed

subsection \<open>Configuration files\<close>

text \<open>
  Claim C9. For either value of the remote flag, \<^verbatim>\<open>create_project\<close> and
  \<^verbatim>\<open>register\<close> use \<^verbatim>\<open>.flyte/{remote|sandbox}-config.yaml\<close>, while
  \<^verbatim>\<open>docker_build\<close> and \<^verbatim>\<open>serialize\<close> use \<^verbatim>\<open>.flyte/{remote|sandbox}.config\<close>:
  two different names, the same within each pair, and each is the file handed to the
  external call.
\<close>

theorem config_file_conventions:
  "create_project_config remote = ''.flyte/'' @ (if remote then ''remote'' else ''sandbox'') @ ''-config.yaml''
   \<and> register_config remote = ''.flyte/'' @ (if remote then ''remote'' else ''sandbox'') @ ''-config.yaml''
   \<and> docker_build_config remote = ''.flyte/'' @ (if remote then ''remote'' else ''sandbox'') @ ''.config''
   \<and> serialize_config remote = ''.flyte/'' @ (if remote then ''remote'' else ''sandbox'') @ ''.config''
   \<and> create_project_config remote \<noteq> serialize_config remote
   \<and> Subprocess [''flytectl'', ''get'', ''project'', PROJECT_NAME, ''--config'',
                  ''.flyte/'' @ (if remote then ''remote'' else ''sandbox'') @ ''-config.yaml''] None
        \<in> set (trace (snd (create_project h remote w)))
   \<and> (\<exists>v. Subprocess [''flytectl'', ''-c'',
                  ''.flyte/'' @ (if remote then ''remote'' else ''sandbox'') @ ''-config.yaml'',
                  ''register'', ''files'', ''--project'', PROJECT_NAME, ''--domain'', domain,
                  ''--archive'', ''flyte-package.tgz'', ''--force'', ''--version'', v] None
        \<in> set (trace (snd (register h version remote fast domain w))))
   \<and> DockerBuild ''.'' ''Dockerfile'' tag
        [(''image'', tag),
         (''config'', ''.flyte/'' @ (if remote then ''remote'' else ''sandbox'') @ ''.config'')]
        \<in> set (trace (snd (docker_build h tag remote w)))
   \<and> Subprocess ([''pyflyte'', ''-c'',
                   ''.flyte/'' @ (if remote then ''remote'' else ''sandbox'') @ ''.config'',
                   ''--pkgs'', ''destinations_similarity'', ''package'', ''--force'',
                   ''--image'', tag]
                  @ (if fast then [''--fast''] else [''--in-container-source-path'', ''/home/flyte'']))
        (Some (serialize_env h remote))
        \<in> set (trace (snd (serialize h tag remote fast w)))"
proof -
  let ?t = "if remote then ''remote'' else ''sandbox''"
  have a: "create_project_config remote = ''.flyte/'' @ ?t @ ''-config.yaml''"
    by (simp add: create_project_config_def)
  have b: "register_config remote = ''.flyte/'' @ ?t @ ''-config.yaml''"
    by (simp add: register_config_def)
  have c: "docker_build_config remote = ''.flyte/'' @ ?t @ ''.config''"
    by (simp add: docker_build_config_def)
  have d: "serialize_config remote = ''.flyte/'' @ ?t @ ''.config''"
    by (simp add: serialize_config_def)
  have e: "create_project_config remote \<noteq> serialize_config remote"
    by (simp add: create_project_config_def serialize_config_def)
  have f: "Subprocess [''flytectl'', ''get'', ''project'', PROJECT_NAME, ''--config'',
                  ''.flyte/'' @ ?t @ ''-config.yaml''] None
        \<in> set (trace (snd (create_project h remote w)))"
    using create_project_first [of h remote w] unfolding a by auto
  have "Subprocess (register_args
             (if fast then version @ ''-fast''
                @ take 7 (uuid_hex (uuid_version4 (urandom h (drawn w)))) else version)
             remote domain) None
        \<in> set (trace (snd (register h version remote fast domain w)))"
    by (simp add: register_eq Let_def split: proc_result.splits)
  then have g: "\<exists>v. Subprocess [''flytectl'', ''-c'', ''.flyte/'' @ ?t @ ''-config.yaml'',
                  ''register'', ''files'', ''--project'', PROJECT_NAME, ''--domain'', domain,
                  ''--archive'', ''flyte-package.tgz'', ''--force'', ''--version'', v] None
        \<in> set (trace (snd (register h version remote fast domain w)))"
    unfolding register_args_def b by (rule exI)
  have i: "DockerBuild ''.'' ''Dockerfile'' tag
        [(''image'', tag), (''config'', ''.flyte/'' @ ?t @ ''.config'')]
        \<in> set (trace (snd (docker_build h tag remote w)))"
    by (simp add: docker_build_eq Let_def c split: build_result.splits)
  have j: "Subprocess ([''pyflyte'', ''-c'', ''.flyte/'' @ ?t @ ''.config'',
                   ''--pkgs'', ''destinations_similarity'', ''package'', ''--force'',
                   ''--image'', tag]
                  @ (if fast then [''--fast''] else [''--in-container-source-path'', ''/home/flyte'']))
        (Some (serialize_env h remote))
        \<in> set (trace (snd (serialize h tag remote fast w)))"
    by (simp add: serialize_eq Let_def serialize_args_def d)
  from a b c d e f g i j show ?thesis by blast
qed

end
